theory Spec2Isabelle
  imports Main
begin

section \<open>Syntax trees built by the generator\<close>

text \<open>
  The generator of \<^verbatim>\<open>ts-src/TypescriptDefinitionGenerator.ts\<close> builds TypeScript syntax
  trees with \<^verbatim>\<open>ts.factory\<close> and prints them. The trees are modelled as datatypes with one
  constructor per factory function used; the printer of the TypeScript library is not
  part of the repository, so a module's contents is kept as the list of trees handed to
  it.
\<close>

datatype keyword = NumberKeyword | BigIntKeyword | StringKeyword | BooleanKeyword | VoidKeyword

datatype type_node =
    KeywordTypeNode keyword
  | LiteralNull
  | TypeReferenceNode string "type_node list"
  | ArrayTypeNode type_node
  | UnionTypeNode "type_node list"

datatype modifier =
    PublicKeyword | StaticKeyword | ReadonlyKeyword | PrivateKeyword | ExportKeyword | DeclareKeyword

datatype comment = SingleLineComment string | MultiLineComment string

datatype parameter_declaration = ParameterDeclaration string type_node

datatype class_element =
    PropertyDeclaration "modifier list" string type_node "comment list"
  | MethodDeclarationNode "modifier list" string "parameter_declaration list" type_node "comment list"
  | ConstructorDeclaration "modifier list" "parameter_declaration list" bool "comment list"

text \<open>
  An import specifier is \<^verbatim>\<open>propertyName as name\<close> (the property name is optional); the
  boolean of a constructor declaration says whether it has the body \<^verbatim>\<open>{ super(); }\<close>.
\<close>

datatype import_specifier = ImportSpecifier "string option" string

datatype node =
    ImportDeclaration "import_specifier list" string
  | ClassDeclaration "modifier list" string string "class_element list" "comment list"
  | ExportDefault string

section \<open>Strings\<close>

definition endsWith :: "string \<Rightarrow> string \<Rightarrow> bool" where
  "endsWith s suffix = (length suffix \<le> length s \<and> drop (length s - length suffix) s = suffix)"

text \<open>\<^verbatim>\<open>name.substring(name.lastIndexOf('.') + 1)\<close>: the whole name when it has no dot.\<close>

definition simpleNameOf :: "string \<Rightarrow> string" where
  "simpleNameOf name = rev (takeWhile (\<lambda>c. c \<noteq> CHR ''.'') (rev name))"

text \<open>\<^verbatim>\<open>name.replaceAll('.', '_')\<close>\<close>

definition replaceDots :: "string \<Rightarrow> string" where
  "replaceDots name = map (\<lambda>c. if c = CHR ''.'' then CHR ''_'' else c) name"

text \<open>\<^verbatim>\<open>s.split('.')\<close>: never empty, the empty string gives one empty segment.\<close>

fun splitDots :: "string \<Rightarrow> string list" where
  "splitDots [] = [[]]"
| "splitDots (c # cs) =
     (if c = CHR ''.'' then [] # splitDots cs
      else (case splitDots cs of seg # segs \<Rightarrow> (c # seg) # segs | [] \<Rightarrow> [[c]]))"

text \<open>\<^verbatim>\<open>xs.join(sep)\<close>\<close>

fun joinWith :: "string \<Rightarrow> string list \<Rightarrow> string" where
  "joinWith sep [] = []"
| "joinWith sep [x] = x"
| "joinWith sep (x # y # ys) = x @ sep @ joinWith sep (y # ys)"

text \<open>The decimal digits of an array index, as \<^verbatim>\<open>'var' + index\<close> prints it.\<close>

definition digitChar :: "nat \<Rightarrow> char" where
  "digitChar d = ''0123456789'' ! d"

fun digitsOf :: "nat \<Rightarrow> string" where
  "digitsOf n =
     (if n < 10 then [digitChar n] else digitsOf (n div 10) @ [digitChar (n mod 10)])"

declare digitsOf.simps [simp del]

section \<open>The type mapper\<close>

text \<open>
  The mutable fields of a generator object. \<^verbatim>\<open>classname\<close> is read-only and
  \<^verbatim>\<open>resolvedImports\<close> is the list shared by the whole run; the conversion functions only
  read them, so they are passed as arguments.
\<close>

record generator =
  usesBasicOrJavaType :: bool
  additionalImports :: "string list"
  importsToResolve :: "string list"

definition newGenerator :: generator where
  "newGenerator = \<lparr>usesBasicOrJavaType = False, additionalImports = [], importsToResolve = []\<rparr>"

definition primitiveToClassType :: "string \<Rightarrow> string" where
  "primitiveToClassType t =
     (if t = ''boolean'' then ''java.lang.Boolean''
      else if t = ''byte'' then ''java.lang.Byte''
      else if t = ''char'' then ''java.lang.Character''
      else if t = ''short'' then ''java.lang.Short''
      else if t = ''int'' then ''java.lang.Integer''
      else if t = ''long'' then ''java.lang.Long''
      else if t = ''float'' then ''java.lang.Float''
      else if t = ''double'' then ''java.lang.Double''
      else t)"

definition isPrimitive :: "string \<Rightarrow> bool" where
  "isPrimitive t =
     (t \<in> set [''boolean'', ''byte'', ''char'', ''short'', ''int'', ''long'', ''float'', ''double''])"

text \<open>The local function \<^verbatim>\<open>createType\<close> of \<^verbatim>\<open>javaTypeToTypescriptType\<close>.\<close>

definition createType :: "bool \<Rightarrow> type_node \<Rightarrow> type_node" where
  "createType strictNullTypes t = (if strictNullTypes then UnionTypeNode [t, LiteralNull] else t)"

text \<open>
  The local function \<^verbatim>\<open>createTypeReferenceNode\<close>: it records the name and picks the
  identifier the reference is printed with.
\<close>

definition createTypeReferenceNode ::
  "string \<Rightarrow> string list \<Rightarrow> bool \<Rightarrow> string \<Rightarrow> generator \<Rightarrow> type_node \<times> generator" where
  "createTypeReferenceNode classname resolvedImports isParam name g =
     (let g1 = (if name \<notin> set resolvedImports
                then g\<lparr>additionalImports := additionalImports g @ [name]\<rparr> else g);
          g2 = g1\<lparr>importsToResolve := importsToResolve g1 @ [name]\<rparr>;
          isSelf = (name = classname \<and> isParam)
      in (TypeReferenceNode
            (if name = classname then simpleNameOf name @ (if isSelf then ''Class'' else '''')
             else replaceDots name) [],
          g2))"

text \<open>The local function \<^verbatim>\<open>createUnion\<close>, with the variables it closes over as arguments.\<close>

definition createUnion ::
  "string \<Rightarrow> string list \<Rightarrow> string \<Rightarrow> bool \<Rightarrow> bool \<Rightarrow> keyword \<Rightarrow> keyword list \<Rightarrow> generator
     \<Rightarrow> type_node \<times> generator" where
  "createUnion classname resolvedImports javaType isParam strictNullTypes type additionalTypes g =
     (let types = [KeywordTypeNode type]
                  @ (if \<not> isPrimitive javaType \<and> strictNullTypes then [LiteralNull] else [])
      in if \<not> isParam then (UnionTypeNode types, g)
         else (let (r, g') = createTypeReferenceNode classname resolvedImports isParam
                               (primitiveToClassType javaType) g
               in (UnionTypeNode ([r] @ map KeywordTypeNode additionalTypes @ types), g')))"

function javaTypeToTypescriptType ::
  "string \<Rightarrow> string list \<Rightarrow> string \<Rightarrow> bool \<Rightarrow> bool \<Rightarrow> generator \<Rightarrow> type_node \<times> generator" where
  "javaTypeToTypescriptType classname resolvedImports javaType isParam strictNullTypes g =
     (if javaType = ''byte[]'' \<or> javaType = ''java.lang.Byte[]''
      then (createType strictNullTypes (TypeReferenceNode ''Buffer'' []), g)
      else if endsWith javaType ''[]''
      then (let (t, g') = javaTypeToTypescriptType classname resolvedImports
                            (take (length javaType - 2) javaType) isParam True g
            in (createType strictNullTypes (ArrayTypeNode t), g'))
      else if javaType \<in> set [''int'', ''java.lang.Integer'', ''float'', ''java.lang.Float'',
                ''double'', ''java.lang.Double'', ''byte'', ''java.lang.Byte'',
                ''short'', ''java.lang.Short'']
      then createUnion classname resolvedImports javaType isParam strictNullTypes NumberKeyword [] g
      else if javaType \<in> set [''long'', ''java.lang.Long'']
      then createUnion classname resolvedImports javaType isParam strictNullTypes
             NumberKeyword [BigIntKeyword] g
      else if javaType \<in> set [''char'', ''java.lang.Character'', ''java.lang.String'']
      then (createType strictNullTypes (KeywordTypeNode StringKeyword), g)
      else if javaType \<in> set [''boolean'', ''java.lang.Boolean'']
      then createUnion classname resolvedImports javaType isParam strictNullTypes BooleanKeyword [] g
      else if javaType \<in> set [''void'', ''java.lang.Void'']
      then (KeywordTypeNode VoidKeyword, g)
      else if javaType = ''java.lang.Object''
      then (createType strictNullTypes (TypeReferenceNode ''BasicOrJavaType'' []),
            g\<lparr>usesBasicOrJavaType := True\<rparr>)
      else (let (r, g') = createTypeReferenceNode classname resolvedImports isParam javaType g
            in (createType strictNullTypes r, g')))"
  by pat_completeness auto
termination
  by (relation "measure (\<lambda>(classname, resolvedImports, javaType, rest). length javaType)")
     (auto simp: endsWith_def)

declare javaTypeToTypescriptType.simps [simp del]

section \<open>Reflection metadata\<close>

text \<open>
  What the Java reflection objects answer: the values the generator reads through
  \<^verbatim>\<open>getModifiers\<close>, \<^verbatim>\<open>getName\<close>, \<^verbatim>\<open>getType().getTypeName()\<close> and so on.
\<close>

record FieldClass =
  fieldModifiers :: int
  fieldName :: string
  fieldType :: string

record DeclaredMethodClass =
  methodModifiers :: int
  methodName :: string
  methodReturnType :: string
  methodParameterTypes :: "string list"

record DeclaredConstructorClass =
  constructorModifiers :: int
  constructorParameterTypes :: "string list"

record ClassClass =
  getFields :: "FieldClass list"
  getMethods :: "DeclaredMethodClass list"
  getDeclaredConstructors :: "DeclaredConstructorClass list"
  getModifiers :: int
  isInterface :: bool

text \<open>
  \<^verbatim>\<open>java.lang.reflect.Modifier\<close> belongs to the Java runtime; its predicates test the bits
  \<^verbatim>\<open>PUBLIC = 0x1\<close>, \<^verbatim>\<open>STATIC = 0x8\<close>, \<^verbatim>\<open>FINAL = 0x10\<close> and \<^verbatim>\<open>ABSTRACT = 0x400\<close>.
\<close>

definition isPublic :: "int \<Rightarrow> bool" where
  "isPublic val = odd val"

definition isStatic :: "int \<Rightarrow> bool" where
  "isStatic val = odd (val div 8)"

definition isFinal :: "int \<Rightarrow> bool" where
  "isFinal val = odd (val div 16)"

definition isAbstract :: "int \<Rightarrow> bool" where
  "isAbstract val = odd (val div 1024)"

section \<open>The member converter\<close>

record MethodDeclaration =
  returnType :: string
  parameters :: "string list"
  methodIsStatic :: bool

definition nonNullReturnMethods :: "string list" where
  "nonNullReturnMethods =
     [''toString'', ''wait'', ''getClass'', ''hashCode'', ''notify'', ''notifyAll'', ''equals'']"

subsection \<open>The record of overloads\<close>

text \<open>
  \<^verbatim>\<open>convertMethods\<close> collects the overloads in a plain object used as a dictionary. It is
  modelled as the list of its own properties in the order of their creation, which is the
  order \<^verbatim>\<open>Object.entries\<close> lists keys that are not array indices in (a Java identifier
  never is one). An assignment to the key \<^verbatim>\<open>__proto__\<close> of a plain object reaches the
  accessor of \<^verbatim>\<open>Object.prototype\<close> and creates no own property.
\<close>

type_synonym overloads = "(string \<times> MethodDeclaration list) list"

definition hasOwn :: "overloads \<Rightarrow> string \<Rightarrow> bool" where
  "hasOwn result key = (key \<in> set (map fst result))"

definition pushOverload :: "overloads \<Rightarrow> string \<Rightarrow> MethodDeclaration \<Rightarrow> overloads" where
  "pushOverload result key d = map (\<lambda>(k, v). if k = key then (k, v @ [d]) else (k, v)) result"

definition assignOverloads :: "overloads \<Rightarrow> string \<Rightarrow> MethodDeclaration list \<Rightarrow> overloads" where
  "assignOverloads result key v = (if key = ''__proto__'' then result else result @ [(key, v)])"

definition toMethodDeclaration :: "DeclaredMethodClass \<Rightarrow> MethodDeclaration" where
  "toMethodDeclaration method =
     \<lparr>returnType = methodReturnType method,
      parameters = methodParameterTypes method,
      methodIsStatic = isStatic (methodModifiers method)\<rparr>"

fun convertMethodsFrom :: "DeclaredMethodClass list \<Rightarrow> overloads \<Rightarrow> overloads" where
  "convertMethodsFrom [] result = result"
| "convertMethodsFrom (method # methods) result =
     (if isPublic (methodModifiers method)
      then (if hasOwn result (methodName method)
            then convertMethodsFrom methods
                   (pushOverload result (methodName method) (toMethodDeclaration method))
            else convertMethodsFrom methods
                   (assignOverloads result (methodName method) [toMethodDeclaration method]))
      else convertMethodsFrom methods result)"

definition convertMethods :: "DeclaredMethodClass list \<Rightarrow> overloads" where
  "convertMethods methods = convertMethodsFrom methods []"

subsection \<open>Parameters and methods\<close>

definition convertParameter ::
  "string \<Rightarrow> string list \<Rightarrow> string \<Rightarrow> nat \<Rightarrow> generator \<Rightarrow> parameter_declaration \<times> generator" where
  "convertParameter classname resolvedImports param index g =
     (let (t, g') = javaTypeToTypescriptType classname resolvedImports param True True g
      in (ParameterDeclaration (''var'' @ digitsOf index) t, g'))"

text \<open>\<^verbatim>\<open>params.map(this.convertParameter.bind(this))\<close>, from index \<open>i\<close> on.\<close>

fun convertParametersFrom ::
  "string \<Rightarrow> string list \<Rightarrow> string list \<Rightarrow> nat \<Rightarrow> generator
     \<Rightarrow> parameter_declaration list \<times> generator" where
  "convertParametersFrom classname resolvedImports [] i g = ([], g)"
| "convertParametersFrom classname resolvedImports (p # ps) i g =
     (let (d, g1) = convertParameter classname resolvedImports p i g;
          (ds, g2) = convertParametersFrom classname resolvedImports ps (Suc i) g1
      in (d # ds, g2))"

definition convertParameters ::
  "string \<Rightarrow> string list \<Rightarrow> MethodDeclaration \<Rightarrow> generator
     \<Rightarrow> parameter_declaration list \<times> generator" where
  "convertParameters classname resolvedImports params g =
     convertParametersFrom classname resolvedImports (parameters params) 0 g"

text \<open>The lines \<^verbatim>\<open> * @param var<i> original type: '<p>'\<close> of a documentation comment.\<close>

fun paramComments :: "string list \<Rightarrow> nat \<Rightarrow> string" where
  "paramComments [] i = []"
| "paramComments (p # ps) i =
     '' * @param var'' @ digitsOf i @ '' original type: '' @ [CHR 0x27] @ p @ [CHR 0x27, CHR 0x0A]
     @ paramComments ps (Suc i)"

definition createMethodComment :: "MethodDeclaration \<Rightarrow> string" where
  "createMethodComment declaration =
     [CHR ''*'', CHR 0x0A] @ paramComments (parameters declaration) 0
     @ '' * @return original return type: '' @ [CHR 0x27] @ returnType declaration
     @ [CHR 0x27, CHR 0x0A] @ '' ''"

definition createMethod ::
  "string \<Rightarrow> string list \<Rightarrow> MethodDeclaration \<Rightarrow> string \<Rightarrow> nat \<Rightarrow> bool \<Rightarrow> bool \<Rightarrow> generator
     \<Rightarrow> class_element \<times> generator" where
  "createMethod classname resolvedImports m mname i isSync nonNullReturnType g =
     (let modifiers = [PublicKeyword] @ (if methodIsStatic m then [StaticKeyword] else []);
          (rt, g1) = javaTypeToTypescriptType classname resolvedImports (returnType m) False
                       (\<not> nonNullReturnType) g;
          rt' = (if \<not> isSync then TypeReferenceNode ''Promise'' [rt] else rt);
          (ps, g2) = convertParameters classname resolvedImports m g1
      in (MethodDeclarationNode modifiers (mname @ (if isSync then ''Sync'' else [])) ps rt'
            ((if i = 0
              then [SingleLineComment
                      ('' ================== Method '' @ mname @ '' =================='')]
              else [])
             @ [MultiLineComment (createMethodComment m)]),
          g2))"

text \<open>The loop of \<^verbatim>\<open>convertMethod\<close>, from overload \<open>i\<close> on.\<close>

fun convertMethodFrom ::
  "string \<Rightarrow> string list \<Rightarrow> MethodDeclaration list \<Rightarrow> string \<Rightarrow> nat \<Rightarrow> generator
     \<Rightarrow> class_element list \<times> generator" where
  "convertMethodFrom classname resolvedImports [] mname i g = ([], g)"
| "convertMethodFrom classname resolvedImports (m # ms) mname i g =
     (let nonNullReturnType = (mname \<in> set nonNullReturnMethods);
          (a, g1) = createMethod classname resolvedImports m mname i False nonNullReturnType g;
          (s, g2) = createMethod classname resolvedImports m mname i True nonNullReturnType g1;
          (res, g3) = convertMethodFrom classname resolvedImports ms mname (Suc i) g2
      in (a # s # res, g3))"

definition convertMethod ::
  "string \<Rightarrow> string list \<Rightarrow> MethodDeclaration list \<Rightarrow> string \<Rightarrow> generator
     \<Rightarrow> class_element list \<times> generator" where
  "convertMethod classname resolvedImports method mname g =
     convertMethodFrom classname resolvedImports method mname 0 g"

subsection \<open>Fields\<close>

fun convertFields ::
  "string \<Rightarrow> string list \<Rightarrow> FieldClass list \<Rightarrow> generator \<Rightarrow> class_element list \<times> generator" where
  "convertFields classname resolvedImports [] g = ([], g)"
| "convertFields classname resolvedImports (field # rest) g =
     (if isPublic (fieldModifiers field)
      then (let tsModifiers = [PublicKeyword]
                  @ (if isStatic (fieldModifiers field) then [StaticKeyword] else [])
                  @ (if isFinal (fieldModifiers field) then [ReadonlyKeyword] else []);
                (t, g1) = javaTypeToTypescriptType classname resolvedImports (fieldType field)
                            True True g;
                declaration = PropertyDeclaration tsModifiers (fieldName field) t
                  [SingleLineComment
                     ('' ================== Field '' @ fieldName field @ '' ==================''),
                   MultiLineComment
                     ([CHR ''*'', CHR 0x0A] @ '' * Original type: '' @ [CHR 0x27]
                      @ fieldType field @ [CHR 0x27, CHR 0x0A] @ '' '')];
                (res, g2) = convertFields classname resolvedImports rest g1
            in (declaration # res, g2))
      else convertFields classname resolvedImports rest g)"

subsection \<open>Constructors\<close>

definition isAbstractOrInterface :: "ClassClass \<Rightarrow> bool" where
  "isAbstractOrInterface classType = (isInterface classType \<or> isAbstract (getModifiers classType))"

definition createPrivateConstructor :: class_element where
  "createPrivateConstructor =
     ConstructorDeclaration [PrivateKeyword] [] True
       [MultiLineComment
          ([CHR ''*'', CHR 0x0A] @ '' * Private constructor to prevent instantiation'' @ [CHR 0x0A]
           @ '' * as this is either an abstract class or an interface'' @ [CHR 0x0A] @ '' '')]"

text \<open>The parameter type names of the public constructors.\<close>

definition publicConstructorTypes :: "DeclaredConstructorClass list \<Rightarrow> string list list" where
  "publicConstructorTypes constructors =
     map constructorParameterTypes
       (filter (\<lambda>c. isPublic (constructorModifiers c)) constructors)"

text \<open>\<^verbatim>\<open>types.map((t, i) => ...)\<close> building the constructor declarations, from index \<open>i\<close> on.\<close>

fun tsConstructorsFrom ::
  "string \<Rightarrow> string list \<Rightarrow> string list list \<Rightarrow> nat \<Rightarrow> generator
     \<Rightarrow> class_element list \<times> generator" where
  "tsConstructorsFrom classname resolvedImports [] i g = ([], g)"
| "tsConstructorsFrom classname resolvedImports (t # ts) i g =
     (let (ps, g1) = convertParametersFrom classname resolvedImports t 0 g;
          declaration = ConstructorDeclaration [PublicKeyword] ps False
            ((if i = 0
              then [SingleLineComment '' ================== Constructors =================='']
              else [])
             @ (if length t > 0
                then [MultiLineComment ([CHR ''*'', CHR 0x0A] @ paramComments t 0 @ '' '')]
                else []));
          (res, g2) = tsConstructorsFrom classname resolvedImports ts (Suc i) g1
      in (declaration # res, g2))"

text \<open>\<^verbatim>\<open>types.map((t, i) => this.createMethod(...))\<close> building the factories.\<close>

fun newInstanceMethodsFrom ::
  "string \<Rightarrow> string list \<Rightarrow> string list list \<Rightarrow> nat \<Rightarrow> generator
     \<Rightarrow> class_element list \<times> generator" where
  "newInstanceMethodsFrom classname resolvedImports [] i g = ([], g)"
| "newInstanceMethodsFrom classname resolvedImports (t # ts) i g =
     (let (d, g1) = createMethod classname resolvedImports
                      \<lparr>returnType = classname, parameters = t, methodIsStatic = True\<rparr>
                      ''newInstance'' i False True g;
          (res, g2) = newInstanceMethodsFrom classname resolvedImports ts (Suc i) g1
      in (d # res, g2))"

definition convertConstructors ::
  "string \<Rightarrow> string list \<Rightarrow> DeclaredConstructorClass list \<Rightarrow> generator
     \<Rightarrow> class_element list \<times> generator" where
  "convertConstructors classname resolvedImports constructors g =
     (let types = publicConstructorTypes constructors;
          (tsConstructors, g1) = tsConstructorsFrom classname resolvedImports types 0 g;
          (newInstanceMethods, g2) = newInstanceMethodsFrom classname resolvedImports types 0 g1
      in (newInstanceMethods @ tsConstructors, g2))"

section \<open>The dependency resolver\<close>

text \<open>
  The loop of \<^verbatim>\<open>getPath\<close> overwrites the common leading segments of both split names with
  \<^verbatim>\<open>null\<close> and stops at the first index where they differ, or where the imported name has
  no segment left (\<^verbatim>\<open>undefined\<close> is no string).
\<close>

fun nullCommon :: "string list \<Rightarrow> string list \<Rightarrow> string option list \<times> string option list" where
  "nullCommon (t # ts) (i # is) =
     (if i = t then (let (ts', is') = nullCommon ts is in (None # ts', None # is'))
      else (map Some (t # ts), map Some (i # is)))"
| "nullCommon ts is = (map Some ts, map Some is)"

text \<open>\<^verbatim>\<open>filter((e) => !!e)\<close> drops \<^verbatim>\<open>null\<close> and the empty string.\<close>

fun truthy :: "string option list \<Rightarrow> string list" where
  "truthy [] = []"
| "truthy (None # es) = truthy es"
| "truthy (Some e # es) = (if e = [] then truthy es else e # truthy es)"

definition getPath :: "string \<Rightarrow> string \<Rightarrow> string" where
  "getPath classname i =
     (let (thisSplit, importSplit) = nullCommon (splitDots classname) (splitDots i)
      in ''./'' @ joinWith ''../'' (map (\<lambda>e. []) (truthy thisSplit))
         @ joinWith ''/'' (truthy importSplit))"

text \<open>\<^verbatim>\<open>self.findIndex(p)\<close>, with \<open>None\<close> for \<^verbatim>\<open>-1\<close>.\<close>

fun findIndex :: "('a \<Rightarrow> bool) \<Rightarrow> 'a list \<Rightarrow> nat option" where
  "findIndex p [] = None"
| "findIndex p (x # xs) =
     (if p x then Some 0 else (case findIndex p xs of None \<Rightarrow> None | Some n \<Rightarrow> Some (Suc n)))"

text \<open>\<^verbatim>\<open>xs.filter((value, index, self) => p(value, index, self))\<close>\<close>

definition filterIndexed :: "('a \<Rightarrow> nat \<Rightarrow> 'a list \<Rightarrow> bool) \<Rightarrow> 'a list \<Rightarrow> 'a list" where
  "filterIndexed p xs = map fst (filter (\<lambda>(x, i). p x i xs) (zip xs [0..<length xs]))"

definition unique :: "string \<Rightarrow> nat \<Rightarrow> string list \<Rightarrow> bool" where
  "unique v index self = (findIndex (\<lambda>x. x = v) self = Some index)"

definition getAdditionalImports :: "string \<Rightarrow> generator \<Rightarrow> node list" where
  "getAdditionalImports classname g =
     map (\<lambda>i. ImportDeclaration [ImportSpecifier (Some (simpleNameOf i)) (replaceDots i)]
                (getPath classname i))
       (filterIndexed unique (filter (\<lambda>i. i \<noteq> classname) (importsToResolve g)))"

section \<open>The code emitter\<close>

definition getImports :: "generator \<Rightarrow> node" where
  "getImports g =
     ImportDeclaration
       ([ImportSpecifier None ''importClass'', ImportSpecifier None ''JavaClass'']
        @ (if usesBasicOrJavaType g then [ImportSpecifier None ''BasicOrJavaType''] else []))
       ''java-bridge''"

definition getExportStatement :: "string \<Rightarrow> string \<Rightarrow> bool \<Rightarrow> node list" where
  "getExportStatement classname simpleName abstractOrInterface =
     [ClassDeclaration [ExportKeyword] simpleName
        (''importClass<typeof '' @ simpleName @ ''Class>('' @ [CHR 0x22] @ classname @ [CHR 0x22] @ '')'')
        (if abstractOrInterface then [createPrivateConstructor] else [])
        [MultiLineComment
           ([CHR ''*'', CHR 0x0A] @ '' * Class '' @ classname @ ''.'' @ [CHR 0x0A] @ '' *''
            @ [CHR 0x0A]
            @ '' * This actually imports the java class for further use.'' @ [CHR 0x0A]
            @ '' * The class '' @ simpleName
            @ ''Class only defines types, this is the class you should actually import.''
            @ [CHR 0x0A]
            @ '' * Please note that this statement imports the underlying java class at runtime, which may take a while.''
            @ [CHR 0x0A]
            @ '' * This was generated by java-bridge.'' @ [CHR 0x0A]
            @ '' * You should probably not edit this.'' @ [CHR 0x0A] @ '' '')],
      ExportDefault simpleName]"

section \<open>The orchestrator\<close>

text \<open>\<^verbatim>\<open>onlyUnique\<close>: a field is kept when it is the first one of its name.\<close>

definition onlyUnique :: "FieldClass \<Rightarrow> nat \<Rightarrow> FieldClass list \<Rightarrow> bool" where
  "onlyUnique v index self = (findIndex (\<lambda>el. fieldName v = fieldName el) self = Some index)"

text \<open>
  \<^verbatim>\<open>for (const [key, method] of Object.entries(convertedMethods))\<close>
  \<^verbatim>\<open>classMembers.push(...this.convertMethod(method, key))\<close>
\<close>

fun convertEntries ::
  "string \<Rightarrow> string list \<Rightarrow> overloads \<Rightarrow> generator \<Rightarrow> class_element list \<times> generator" where
  "convertEntries classname resolvedImports [] g = ([], g)"
| "convertEntries classname resolvedImports ((key, method) # entries) g =
     (let (ds, g1) = convertMethod classname resolvedImports method key g;
          (res, g2) = convertEntries classname resolvedImports entries g1
      in (ds @ res, g2))"

text \<open>
  The members of the declared class, as \<^verbatim>\<open>generate\<close> collects them in \<^verbatim>\<open>classMembers\<close>:
  the fields, the methods, and for a class that can be instantiated the constructors.
\<close>

definition classMembers ::
  "string \<Rightarrow> string list \<Rightarrow> ClassClass \<Rightarrow> generator \<Rightarrow> class_element list \<times> generator" where
  "classMembers classname resolvedImports cls g =
     (let (fs, g1) = convertFields classname resolvedImports
                       (filterIndexed onlyUnique (getFields cls)) g;
          (ms, g2) = convertEntries classname resolvedImports (convertMethods (getMethods cls)) g1
      in if \<not> isAbstractOrInterface cls
         then (let (cs, g3) = convertConstructors classname resolvedImports
                                (getDeclaredConstructors cls) g2
               in (fs @ ms @ cs, g3))
         else (fs @ ms, g2))"

text \<open>
  The list of nodes \<^verbatim>\<open>generate\<close> hands to \<^verbatim>\<open>getText\<close> (\<open>None\<close> is \<^verbatim>\<open>null\<close>, printed as
  an empty line), together with the generator object after the conversion.
\<close>

definition sourceNodes ::
  "string \<Rightarrow> string list \<Rightarrow> ClassClass \<Rightarrow> node option list \<times> generator" where
  "sourceNodes classname resolvedImports cls =
     (let simpleName = simpleNameOf classname;
          (members, g) = classMembers classname resolvedImports cls newGenerator;
          tsClass = ClassDeclaration [ExportKeyword, DeclareKeyword] (simpleName @ ''Class'')
            ''JavaClass'' members
            [MultiLineComment
               ([CHR ''*'', CHR 0x0A] @ '' * This class just defines types, you should import ''
                @ simpleName @ '' instead of this.'' @ [CHR 0x0A]
                @ '' * This was generated by java-bridge.'' @ [CHR 0x0A]
                @ '' * You should probably not edit this.'' @ [CHR 0x0A] @ '' '')]
      in ([Some (getImports g)] @ map Some (getAdditionalImports classname g)
          @ [None, Some tsClass, None]
          @ map Some (getExportStatement classname simpleName (isAbstractOrInterface cls)),
          g))"

record ModuleDeclaration =
  name :: string
  contents :: "node option list"

datatype error = ClassNotFound string

text \<open>
  \<^verbatim>\<open>generate\<close> and its loop over \<^verbatim>\<open>this.additionalImports\<close>. \<open>importClassAsync\<close> is the
  reflection client: \<open>None\<close> when the Java runtime has no class of the name, which
  raises. \<open>resolvedImports\<close> is the list shared by all generators of a run; it is
  returned as the calls leave it. Nothing bounds the classes a class can reach, so the
  recursion carries fuel, one unit for each class entered: \<open>None\<close> is a run that
  needs more. A name that is resolved already is answered without fuel.
\<close>

fun generate ::
  "nat \<Rightarrow> (string \<Rightarrow> ClassClass option) \<Rightarrow> string \<Rightarrow> string list
     \<Rightarrow> (error + ModuleDeclaration list \<times> string list) option"
and generateImports ::
  "nat \<Rightarrow> (string \<Rightarrow> ClassClass option) \<Rightarrow> string list \<Rightarrow> string list
     \<Rightarrow> (error + ModuleDeclaration list \<times> string list) option" where
  "generate 0 importClassAsync classname resolvedImports =
     (if classname \<in> set resolvedImports then Some (Inr ([], resolvedImports)) else None)"
| "generate (Suc fuel) importClassAsync classname resolvedImports =
     (if classname \<in> set resolvedImports then Some (Inr ([], resolvedImports))
      else (let resolved1 = resolvedImports @ [classname]
            in case importClassAsync classname of
                 None \<Rightarrow> Some (Inl (ClassNotFound classname))
               | Some cls \<Rightarrow>
                   (let (sourceText, g) = sourceNodes classname resolved1 cls
                    in case generateImports fuel importClassAsync (additionalImports g) resolved1 of
                         None \<Rightarrow> None
                       | Some (Inl e) \<Rightarrow> Some (Inl e)
                       | Some (Inr (res, resolved2)) \<Rightarrow>
                           Some (Inr (res @ [\<lparr>name = classname, contents = sourceText\<rparr>],
                                      resolved2)))))"
| "generateImports fuel importClassAsync [] resolvedImports = Some (Inr ([], resolvedImports))"
| "generateImports fuel importClassAsync (imported # rest) resolvedImports =
     (case generate fuel importClassAsync imported resolvedImports of
        None \<Rightarrow> None
      | Some (Inl e) \<Rightarrow> Some (Inl e)
      | Some (Inr (generated, resolved1)) \<Rightarrow>
          (case generateImports fuel importClassAsync rest resolved1 of
             None \<Rightarrow> None
           | Some (Inl e) \<Rightarrow> Some (Inl e)
           | Some (Inr (res, resolved2)) \<Rightarrow> Some (Inr (generated @ res, resolved2))))"

section \<open>Notions used to state the properties\<close>

text \<open>A type that is itself a union with the \<^verbatim>\<open>null\<close> literal among its members.\<close>

definition isNullUnion :: "type_node \<Rightarrow> bool" where
  "isNullUnion t = (case t of UnionTypeNode ts \<Rightarrow> LiteralNull \<in> set ts | _ \<Rightarrow> False)"

text \<open>
  The type names whose mapping never reads \<^verbatim>\<open>strictNullTypes\<close>: the two spellings of
  \<^verbatim>\<open>void\<close>, and the primitives that go through \<^verbatim>\<open>createUnion\<close>.
\<close>

definition nullIgnoringTypes :: "string list" where
  "nullIgnoringTypes =
     [''void'', ''java.lang.Void'', ''int'', ''float'', ''double'', ''byte'', ''short'', ''long'',
      ''boolean'']"


text \<open>The identifier a reference to class \<open>n\<close> is printed with inside class \<open>classname\<close>.\<close>

definition referenceName :: "string \<Rightarrow> string \<Rightarrow> bool \<Rightarrow> string" where
  "referenceName classname n isParam =
     (if n = classname then simpleNameOf n @ (if isParam then ''Class'' else [])
      else replaceDots n)"

definition propertyTypes :: "class_element list \<Rightarrow> type_node list" where
  "propertyTypes ds = [t. PropertyDeclaration ms n t cs \<leftarrow> ds]"

text \<open>\<open>n\<close> steps to the parent directory.\<close>

definition ascend :: "nat \<Rightarrow> string" where
  "ascend n = concat (replicate n ''../'')"






fun elementName :: "class_element \<Rightarrow> string" where
  "elementName (PropertyDeclaration ms n t cs) = n"
| "elementName (MethodDeclarationNode ms n ps rt cs) = n"
| "elementName (ConstructorDeclaration ms ps body cs) = ''constructor''"

fun declaredType :: "class_element \<Rightarrow> type_node option" where
  "declaredType (PropertyDeclaration ms n t cs) = Some t"
| "declaredType (MethodDeclarationNode ms n ps rt cs) = Some rt"
| "declaredType (ConstructorDeclaration ms ps body cs) = None"

text \<open>The public methods of the name \<open>f\<close>, in the order the metadata lists them.\<close>

definition publicOverloads :: "string \<Rightarrow> DeclaredMethodClass list \<Rightarrow> DeclaredMethodClass list" where
  "publicOverloads f ms = filter (\<lambda>m. isPublic (methodModifiers m) \<and> methodName m = f) ms"

text \<open>
  What the record of overloads holds under a key after more overloads \<open>pub\<close> of that name
  have been collected, given what it held before.
\<close>

fun extended :: "'a list option \<Rightarrow> 'a list \<Rightarrow> 'a list option" where
  "extended None pub = (if pub = [] then None else Some pub)"
| "extended (Some v) pub = Some (v @ pub)"

text \<open>
  The type a Java type name is mapped to. It depends on the class being generated, the
  position and the nullability mode, and on nothing else (lemma \<open>fst_mapped\<close>).
\<close>

definition mappedType :: "string \<Rightarrow> string \<Rightarrow> bool \<Rightarrow> bool \<Rightarrow> type_node" where
  "mappedType classname javaType isParam strictNullTypes =
     fst (javaTypeToTypescriptType classname [] javaType isParam strictNullTypes newGenerator)"

section \<open>Properties of the type mapper\<close>

lemmas mapper_defs =
  createType_def createUnion_def createTypeReferenceNode_def isPrimitive_def
  primitiveToClassType_def

lemma not_strict_not_null:
  "\<not> isNullUnion (fst (javaTypeToTypescriptType cn ri jt ip False g))"
  by (subst javaTypeToTypescriptType.simps)
     (simp add: mapper_defs isNullUnion_def split_beta Let_def)

lemma strict_null:
  "jt \<notin> set nullIgnoringTypes \<Longrightarrow>
   isNullUnion (fst (javaTypeToTypescriptType cn ri jt ip True g))"
  by (subst javaTypeToTypescriptType.simps)
     (simp add: mapper_defs isNullUnion_def split_beta Let_def nullIgnoringTypes_def)

lemma nullIgnoring_same:
  assumes "jt \<in> set nullIgnoringTypes"
  shows "javaTypeToTypescriptType cn ri jt ip True g
           = javaTypeToTypescriptType cn ri jt ip False g"
proof -
  from assms have "jt = ''void'' \<or> jt = ''java.lang.Void'' \<or> jt = ''int'' \<or> jt = ''float''
      \<or> jt = ''double'' \<or> jt = ''byte'' \<or> jt = ''short'' \<or> jt = ''long'' \<or> jt = ''boolean''"
    by (simp add: nullIgnoringTypes_def)
  then show ?thesis
    by (elim disjE; simp add: javaTypeToTypescriptType.simps mapper_defs endsWith_def)
qed

lemma state_ignores_strict:
  "snd (javaTypeToTypescriptType cn ri jt ip s g) = snd (javaTypeToTypescriptType cn ri jt ip s' g)"
  by (subst javaTypeToTypescriptType.simps, subst (2) javaTypeToTypescriptType.simps)
     (simp add: mapper_defs split_beta Let_def)

lemma convertFields_single:
  "isPublic (fieldModifiers f) \<Longrightarrow>
   propertyTypes (fst (convertFields cn ri [f] g))
     = [fst (javaTypeToTypescriptType cn ri (fieldType f) True True g)]"
  by (simp add: propertyTypes_def split_beta Let_def)

lemma fst_createTypeReferenceNode:
  "fst (createTypeReferenceNode cn ri ip n g) = TypeReferenceNode (referenceName cn n ip) []"
  by (simp add: createTypeReferenceNode_def referenceName_def Let_def)

lemma fst_createUnion:
  "fst (createUnion cn ri jt ip s k ks g)
     = UnionTypeNode
         ((if ip then TypeReferenceNode (referenceName cn (primitiveToClassType jt) True) []
                      # map KeywordTypeNode ks
           else [])
          @ KeywordTypeNode k # (if \<not> isPrimitive jt \<and> s then [LiteralNull] else []))"
  by (simp add: createUnion_def split_beta Let_def fst_createTypeReferenceNode)

lemma mapped_type_independent:
  "fst (javaTypeToTypescriptType cn ri jt ip s g) = fst (javaTypeToTypescriptType cn ri' jt ip s g')"
proof (induction cn ri jt ip s g arbitrary: g' rule: javaTypeToTypescriptType.induct)
  case (1 cn ri jt ip s g)
  show ?case
    apply (subst javaTypeToTypescriptType.simps [of cn ri jt ip s g])
    apply (subst javaTypeToTypescriptType.simps [of cn ri' jt ip s g'])
    using 1 [of g']
    apply (simp add: split_beta Let_def fst_createUnion fst_createTypeReferenceNode)
    done
qed

lemma fst_mapped: "fst (javaTypeToTypescriptType cn ri jt ip s g) = mappedType cn jt ip s"
  unfolding mappedType_def by (rule mapped_type_independent)

text \<open>
  Claim C10, as the code has it. \<^verbatim>\<open>void\<close> and \<^verbatim>\<open>java.lang.Void\<close> map to the bare
  \<^verbatim>\<open>void\<close> keyword in parameter and in return position, in both nullability modes, and
  leave the generator as it is. They are not the only names whose mapping ignores the
  mode: the type mapped in strict mode equals the one mapped in the other mode exactly
  for the names of \<open>nullIgnoringTypes\<close>, which also holds the primitives \<^verbatim>\<open>int\<close>,
  \<^verbatim>\<open>float\<close>, \<^verbatim>\<open>double\<close>, \<^verbatim>\<open>byte\<close>, \<^verbatim>\<open>short\<close>, \<^verbatim>\<open>long\<close> and \<^verbatim>\<open>boolean\<close>.
\<close>

theorem void_maps_to_bare_void:
  "(jt \<in> set [''void'', ''java.lang.Void''] \<longrightarrow>
      javaTypeToTypescriptType cn ri jt ip s g = (KeywordTypeNode VoidKeyword, g))
   \<and> (fst (javaTypeToTypescriptType cn ri jt ip True g)
         = fst (javaTypeToTypescriptType cn ri jt ip False g)
       \<longleftrightarrow> jt \<in> set nullIgnoringTypes)"
proof (intro conjI impI iffI)
  assume "jt \<in> set [''void'', ''java.lang.Void'']"
  then have "jt = ''void'' \<or> jt = ''java.lang.Void''"
    by simp
  then show "javaTypeToTypescriptType cn ri jt ip s g = (KeywordTypeNode VoidKeyword, g)"
    by (elim disjE; simp add: javaTypeToTypescriptType.simps endsWith_def)
next
  assume same: "fst (javaTypeToTypescriptType cn ri jt ip True g)
                  = fst (javaTypeToTypescriptType cn ri jt ip False g)"
  show "jt \<in> set nullIgnoringTypes"
  proof (rule ccontr)
    assume "jt \<notin> set nullIgnoringTypes"
    then have "isNullUnion (fst (javaTypeToTypescriptType cn ri jt ip True g))"
      by (rule strict_null)
    with same not_strict_not_null [of cn ri jt ip g] show False
      by simp
  qed
next
  assume "jt \<in> set nullIgnoringTypes"
  then show "fst (javaTypeToTypescriptType cn ri jt ip True g)
               = fst (javaTypeToTypescriptType cn ri jt ip False g)"
    by (simp add: nullIgnoring_same)
qed

theorem void_maps_to_bare_void_witness:
  "javaTypeToTypescriptType ''a.B'' [] ''void'' True True newGenerator
     = (KeywordTypeNode VoidKeyword, newGenerator)
   \<and> javaTypeToTypescriptType ''a.B'' [] ''java.lang.Void'' False False newGenerator
     = (KeywordTypeNode VoidKeyword, newGenerator)
   \<and> fst (javaTypeToTypescriptType ''a.B'' [] ''java.lang.String'' False True newGenerator)
       \<noteq> fst (javaTypeToTypescriptType ''a.B'' [] ''java.lang.String'' False False newGenerator)"
  using void_maps_to_bare_void [where jt = "''void''" and cn = "''a.B''" and ri = "[]"
      and ip = True and s = True and g = newGenerator]
    void_maps_to_bare_void [where jt = "''java.lang.Void''" and cn = "''a.B''" and ri = "[]"
      and ip = False and s = False and g = newGenerator]
    void_maps_to_bare_void [where jt = "''java.lang.String''" and cn = "''a.B''" and ri = "[]"
      and ip = False and g = newGenerator]
  by (simp add: nullIgnoringTypes_def)

text \<open>
  The claim as it is written fails at \<^verbatim>\<open>int\<close>, which is not \<^verbatim>\<open>void\<close> and is mapped
  to the same type, with the same effect on the generator, in both modes and in both
  positions.
\<close>

theorem void_not_the_only_one_counterexample:
  "''int'' \<notin> set [''void'', ''java.lang.Void'']
   \<and> javaTypeToTypescriptType ''a.B'' [] ''int'' False True newGenerator
       = javaTypeToTypescriptType ''a.B'' [] ''int'' False False newGenerator
   \<and> javaTypeToTypescriptType ''a.B'' [] ''int'' True True newGenerator
       = javaTypeToTypescriptType ''a.B'' [] ''int'' True False newGenerator
   \<and> fst (javaTypeToTypescriptType ''a.B'' [] ''int'' False True newGenerator)
       = UnionTypeNode [KeywordTypeNode NumberKeyword]"
  by (simp add: javaTypeToTypescriptType.simps mapper_defs endsWith_def)

text \<open>
  Claim C4, as the code has it. The variadic \<^verbatim>\<open>additionalTypes\<close> of \<^verbatim>\<open>createUnion\<close> are
  used in parameter position only. For \<^verbatim>\<open>long\<close> and \<^verbatim>\<open>java.lang.Long\<close> the type in
  parameter position is the union of the reference to the wrapper class, \<^verbatim>\<open>bigint\<close> and
  \<^verbatim>\<open>number\<close>; in return position it is the union of \<^verbatim>\<open>number\<close> alone, without
  \<^verbatim>\<open>bigint\<close>. In both positions \<^verbatim>\<open>null\<close> is added when nullability is requested and
  the name is not the primitive \<^verbatim>\<open>long\<close>. A public field is mapped as a parameter is.
\<close>

theorem long_maps_to_number_and_bigint:
  assumes "jt \<in> set [''long'', ''java.lang.Long'']"
  shows "fst (javaTypeToTypescriptType cn ri jt True s g)
           = UnionTypeNode ([TypeReferenceNode (referenceName cn ''java.lang.Long'' True) [],
                             KeywordTypeNode BigIntKeyword, KeywordTypeNode NumberKeyword]
                            @ (if s \<and> jt \<noteq> ''long'' then [LiteralNull] else []))
       \<and> fst (javaTypeToTypescriptType cn ri jt False s g)
           = UnionTypeNode ([KeywordTypeNode NumberKeyword]
                            @ (if s \<and> jt \<noteq> ''long'' then [LiteralNull] else []))
       \<and> (isPublic (fieldModifiers f) \<and> fieldType f = jt \<longrightarrow>
             propertyTypes (fst (convertFields cn ri [f] g))
               = [fst (javaTypeToTypescriptType cn ri jt True True g)])"
proof -
  from assms have "jt = ''long'' \<or> jt = ''java.lang.Long''"
    by simp
  then have "fst (javaTypeToTypescriptType cn ri jt True s g)
           = UnionTypeNode ([TypeReferenceNode (referenceName cn ''java.lang.Long'' True) [],
                             KeywordTypeNode BigIntKeyword, KeywordTypeNode NumberKeyword]
                            @ (if s \<and> jt \<noteq> ''long'' then [LiteralNull] else []))
       \<and> fst (javaTypeToTypescriptType cn ri jt False s g)
           = UnionTypeNode ([KeywordTypeNode NumberKeyword]
                            @ (if s \<and> jt \<noteq> ''long'' then [LiteralNull] else []))"
    by (elim disjE;
        simp add: javaTypeToTypescriptType.simps mapper_defs endsWith_def referenceName_def)
  moreover have "isPublic (fieldModifiers f) \<and> fieldType f = jt \<longrightarrow>
             propertyTypes (fst (convertFields cn ri [f] g))
               = [fst (javaTypeToTypescriptType cn ri jt True True g)]"
    using convertFields_single [of f cn ri g] by (simp del: convertFields.simps)
  ultimately show ?thesis
    by (simp del: convertFields.simps)
qed

theorem long_maps_to_number_and_bigint_witness:
  "fst (javaTypeToTypescriptType ''a.B'' [] ''java.lang.Long'' True True newGenerator)
     = UnionTypeNode [TypeReferenceNode ''java_lang_Long'' [], KeywordTypeNode BigIntKeyword,
         KeywordTypeNode NumberKeyword, LiteralNull]
   \<and> fst (javaTypeToTypescriptType ''a.B'' [] ''java.lang.Long'' False True newGenerator)
     = UnionTypeNode [KeywordTypeNode NumberKeyword, LiteralNull]
   \<and> propertyTypes (fst (convertFields ''a.B'' []
         [\<lparr>fieldModifiers = 1, fieldName = ''x'', fieldType = ''java.lang.Long''\<rparr>] newGenerator))
     = [UnionTypeNode [TypeReferenceNode ''java_lang_Long'' [], KeywordTypeNode BigIntKeyword,
          KeywordTypeNode NumberKeyword, LiteralNull]]"
  using long_maps_to_number_and_bigint [where jt = "''java.lang.Long''" and cn = "''a.B''"
      and ri = "[]" and s = True and g = newGenerator
      and f = "\<lparr>fieldModifiers = 1, fieldName = ''x'', fieldType = ''java.lang.Long''\<rparr>"]
  by (simp add: referenceName_def replaceDots_def isPublic_def)

text \<open>
  The claim as it is written fails in return position: neither \<^verbatim>\<open>long\<close> nor
  \<^verbatim>\<open>java.lang.Long\<close> gets a union with \<^verbatim>\<open>bigint\<close> there.
\<close>

theorem long_return_has_no_bigint_counterexample:
  "fst (javaTypeToTypescriptType ''a.B'' [] ''long'' False True newGenerator)
     = UnionTypeNode [KeywordTypeNode NumberKeyword]
   \<and> fst (javaTypeToTypescriptType ''a.B'' [] ''java.lang.Long'' False True newGenerator)
     = UnionTypeNode [KeywordTypeNode NumberKeyword, LiteralNull]"
  by (simp add: javaTypeToTypescriptType.simps mapper_defs endsWith_def)

text \<open>
  Claim C3, as the code has it. For the boxed numeric types that map to \<^verbatim>\<open>number\<close>,
  the type in return position (nullability requested) is the union of exactly \<^verbatim>\<open>number\<close>
  and \<^verbatim>\<open>null\<close>, with no reference to the wrapper class; in method parameter position
  the union holds the reference to the wrapper class as well. \<^verbatim>\<open>convertFields\<close> maps the
  type of a field with \<^verbatim>\<open>isParam = true\<close>, so a public field gets the type a parameter
  gets, with the reference to the wrapper class in it.
\<close>

theorem boxed_numeric_widening:
  assumes "jt \<in> set [''java.lang.Integer'', ''java.lang.Float'', ''java.lang.Double'',
                      ''java.lang.Byte'', ''java.lang.Short'']"
  shows "fst (javaTypeToTypescriptType cn ri jt False True g)
           = UnionTypeNode [KeywordTypeNode NumberKeyword, LiteralNull]
       \<and> fst (convertParameter cn ri jt i g)
           = ParameterDeclaration (''var'' @ digitsOf i)
               (UnionTypeNode [TypeReferenceNode (referenceName cn jt True) [],
                               KeywordTypeNode NumberKeyword, LiteralNull])
       \<and> (isPublic (fieldModifiers f) \<and> fieldType f = jt \<longrightarrow>
             propertyTypes (fst (convertFields cn ri [f] g))
               = [UnionTypeNode [TypeReferenceNode (referenceName cn jt True) [],
                                 KeywordTypeNode NumberKeyword, LiteralNull]])"
proof -
  from assms have "jt = ''java.lang.Integer'' \<or> jt = ''java.lang.Float''
      \<or> jt = ''java.lang.Double'' \<or> jt = ''java.lang.Byte'' \<or> jt = ''java.lang.Short''"
    by simp
  then have mapped:
    "fst (javaTypeToTypescriptType cn ri jt False True g)
       = UnionTypeNode [KeywordTypeNode NumberKeyword, LiteralNull]
     \<and> fst (javaTypeToTypescriptType cn ri jt True True g)
       = UnionTypeNode [TypeReferenceNode (referenceName cn jt True) [],
                        KeywordTypeNode NumberKeyword, LiteralNull]"
    by (elim disjE;
        simp add: javaTypeToTypescriptType.simps mapper_defs endsWith_def referenceName_def)
  then have "fst (convertParameter cn ri jt i g)
           = ParameterDeclaration (''var'' @ digitsOf i)
               (UnionTypeNode [TypeReferenceNode (referenceName cn jt True) [],
                               KeywordTypeNode NumberKeyword, LiteralNull])"
    by (simp add: convertParameter_def split_beta)
  moreover have "isPublic (fieldModifiers f) \<and> fieldType f = jt \<longrightarrow>
             propertyTypes (fst (convertFields cn ri [f] g))
               = [UnionTypeNode [TypeReferenceNode (referenceName cn jt True) [],
                                 KeywordTypeNode NumberKeyword, LiteralNull]]"
    using convertFields_single [of f cn ri g] mapped by (simp del: convertFields.simps)
  ultimately show ?thesis
    using mapped by (simp del: convertFields.simps)
qed

theorem boxed_numeric_widening_witness:
  "fst (javaTypeToTypescriptType ''a.B'' [] ''java.lang.Integer'' False True newGenerator)
     = UnionTypeNode [KeywordTypeNode NumberKeyword, LiteralNull]
   \<and> fst (convertParameter ''a.B'' [] ''java.lang.Integer'' 0 newGenerator)
     = ParameterDeclaration ''var0''
         (UnionTypeNode [TypeReferenceNode ''java_lang_Integer'' [],
                         KeywordTypeNode NumberKeyword, LiteralNull])
   \<and> propertyTypes (fst (convertFields ''a.B'' []
         [\<lparr>fieldModifiers = 1, fieldName = ''x'', fieldType = ''java.lang.Integer''\<rparr>]
         newGenerator))
     = [UnionTypeNode [TypeReferenceNode ''java_lang_Integer'' [],
                       KeywordTypeNode NumberKeyword, LiteralNull]]"
  using boxed_numeric_widening [where jt = "''java.lang.Integer''" and cn = "''a.B''"
      and ri = "[]" and g = newGenerator and i = 0
      and f = "\<lparr>fieldModifiers = 1, fieldName = ''x'', fieldType = ''java.lang.Integer''\<rparr>"]
  by (simp add: referenceName_def replaceDots_def isPublic_def digitsOf.simps digitChar_def
        del: convertFields.simps)

text \<open>
  The claim as it is written fails for a field: the public field \<^verbatim>\<open>x\<close> of type
  \<^verbatim>\<open>java.lang.Integer\<close> of a class \<^verbatim>\<open>a.B\<close> gets a union of three members, the first
  of which is the reference to the wrapper class.
\<close>

theorem boxed_field_has_wrapper_counterexample:
  "fst (convertFields ''a.B'' []
         [\<lparr>fieldModifiers = 1, fieldName = ''x'', fieldType = ''java.lang.Integer''\<rparr>]
         newGenerator)
     = [PropertyDeclaration [PublicKeyword] ''x''
          (UnionTypeNode [TypeReferenceNode ''java_lang_Integer'' [],
                          KeywordTypeNode NumberKeyword, LiteralNull])
          [SingleLineComment '' ================== Field x =================='',
           MultiLineComment
             ([CHR ''*'', CHR 0x0A] @ '' * Original type: '' @ [CHR 0x27] @ ''java.lang.Integer''
              @ [CHR 0x27, CHR 0x0A] @ '' '')]]
   \<and> UnionTypeNode [TypeReferenceNode ''java_lang_Integer'' [],
                     KeywordTypeNode NumberKeyword, LiteralNull]
       \<noteq> UnionTypeNode [KeywordTypeNode NumberKeyword, LiteralNull]"
  by (simp add: javaTypeToTypescriptType.simps mapper_defs endsWith_def replaceDots_def
        isPublic_def isStatic_def isFinal_def)




section \<open>Properties of the dependency resolver\<close>

lemma nullCommon_prefix:
  "t = [] \<or> r = [] \<or> hd t \<noteq> hd r \<Longrightarrow>
   nullCommon (p @ t) (p @ r)
     = (replicate (length p) None @ map Some t, replicate (length p) None @ map Some r)"
proof (induction p)
  case Nil
  then show ?case
    by (cases t; cases r) auto
next
  case (Cons a p)
  then show ?case
    by simp
qed

lemma truthy_nulls: "truthy (replicate n None @ es) = truthy es"
  by (induction n) simp_all

lemma truthy_segments: "\<forall>s \<in> set xs. s \<noteq> [] \<Longrightarrow> truthy (map Some xs) = xs"
  by (induction xs) simp_all

lemma joinWith_empty_strings: "joinWith sep (map (\<lambda>e. []) xs) = concat (replicate (length xs - 1) sep)"
proof (induction xs)
  case Nil
  then show ?case by simp
next
  case (Cons x xs)
  then show ?case
    by (cases xs) simp_all
qed

text \<open>
  Claim C8. Let \<open>p\<close> be the longest common leading sequence of segments of the name of
  the importing class and of the imported name, \<open>t\<close> what is left of the first and \<open>r\<close>
  what is left of the second (no segment left being empty). The path is \<^verbatim>\<open>./\<close>, one
  step up for each segment of \<open>t\<close> but the last, which is the file of the importing class
  and no directory, and then the segments of \<open>r\<close> joined by slashes: the directories to
  descend into and the file of the imported class.
\<close>

theorem getPath_relative:
  assumes "splitDots classname = p @ t" and "splitDots i = p @ r"
    and "t = [] \<or> r = [] \<or> hd t \<noteq> hd r"
    and "\<forall>s \<in> set (t @ r). s \<noteq> []"
  shows "getPath classname i = ''./'' @ ascend (length t - 1) @ joinWith ''/'' r"
proof -
  have "nullCommon (splitDots classname) (splitDots i)
          = (replicate (length p) None @ map Some t, replicate (length p) None @ map Some r)"
    using assms(1-3) by (simp add: nullCommon_prefix)
  moreover have "truthy (map Some t) = t" and "truthy (map Some r) = r"
    using assms(4) by (simp_all add: truthy_segments)
  ultimately show ?thesis
    by (simp add: getPath_def truthy_nulls joinWith_empty_strings ascend_def)
qed

theorem getPath_relative_witness:
  "getPath ''a.b.C'' ''a.b.d.E'' = ''./d/E'' \<and> getPath ''a.b.C'' ''x.y.Z'' = ''./../../x/y/Z''"
  using getPath_relative [where classname = "''a.b.C''" and i = "''a.b.d.E''"
      and p = "[''a'', ''b'']" and t = "[''C'']" and r = "[''d'', ''E'']"]
    getPath_relative [where classname = "''a.b.C''" and i = "''x.y.Z''"
      and p = "[]" and t = "[''a'', ''b'', ''C'']" and r = "[''x'', ''y'', ''Z'']"]
  by (simp add: ascend_def numeral_2_eq_2)

section \<open>Properties of the member converter\<close>























subsection \<open>Grouping the overloads\<close>

lemma hasOwn_map_of: "hasOwn result k \<longleftrightarrow> map_of result k \<noteq> None"
  by (simp add: hasOwn_def map_of_eq_None_iff)

lemma keys_pushOverload: "map fst (pushOverload result k d) = map fst result"
  by (induction result) (auto simp: pushOverload_def)

lemma map_of_pushOverload:
  "map_of (pushOverload result k d) f
     = (if f = k then map_option (\<lambda>v. v @ [d]) (map_of result f) else map_of result f)"
  by (induction result) (auto simp: pushOverload_def)

lemma publicOverloads_Nil: "publicOverloads f [] = []"
  by (simp add: publicOverloads_def)

lemma publicOverloads_Cons:
  "publicOverloads f (m # ms)
     = (if isPublic (methodModifiers m) \<and> methodName m = f then m # publicOverloads f ms
        else publicOverloads f ms)"
  by (simp add: publicOverloads_def)

lemma convertMethodsFrom_grouped:
  assumes "f \<noteq> ''__proto__''"
  shows "distinct (map fst result) \<Longrightarrow>
         distinct (map fst (convertMethodsFrom ms result))
         \<and> map_of (convertMethodsFrom ms result) f
             = extended (map_of result f) (map toMethodDeclaration (publicOverloads f ms))"
proof (induction ms arbitrary: result)
  case Nil
  then show ?case
    by (cases "map_of result f") (simp_all add: publicOverloads_Nil)
next
  case (Cons m ms)
  show ?case
  proof (cases "isPublic (methodModifiers m)")
    case False
    then have "publicOverloads f (m # ms) = publicOverloads f ms"
      by (simp add: publicOverloads_Cons)
    with Cons.IH [OF Cons.prems] False show ?thesis
      by simp
  next
    case public: True
    show ?thesis
    proof (cases "hasOwn result (methodName m)")
      case True
      have "distinct (map fst (pushOverload result (methodName m) (toMethodDeclaration m)))"
        using Cons.prems by (simp add: keys_pushOverload)
      note IH = Cons.IH [OF this]
      show ?thesis
      proof (cases "methodName m = f")
        case same: True
        from True same obtain v where v: "map_of result f = Some v"
          by (auto simp: hasOwn_map_of)
        have "publicOverloads f (m # ms) = m # publicOverloads f ms"
          using public same by (simp add: publicOverloads_Cons)
        with IH public True same v show ?thesis
          by (simp add: map_of_pushOverload)
      next
        case other: False
        have "publicOverloads f (m # ms) = publicOverloads f ms"
          using other by (simp add: publicOverloads_Cons)
        moreover have "map_of (pushOverload result (methodName m) (toMethodDeclaration m)) f
                         = map_of result f"
          using other by (simp add: map_of_pushOverload)
        ultimately show ?thesis
          using IH public True by simp
      qed
    next
      case False
      show ?thesis
      proof (cases "methodName m = ''__proto__''")
        case True
        with assms have "publicOverloads f (m # ms) = publicOverloads f ms"
          by (auto simp: publicOverloads_Cons)
        with Cons.IH [OF Cons.prems] public False True show ?thesis
          by (simp add: assignOverloads_def)
      next
        case notproto: False
        have "distinct (map fst (result @ [(methodName m, [toMethodDeclaration m])]))"
          using Cons.prems False by (simp add: hasOwn_def)
        note IH = Cons.IH [OF this]
        show ?thesis
        proof (cases "methodName m = f")
          case same: True
          from False same have none: "map_of result f = None"
            by (simp add: hasOwn_map_of)
          have "publicOverloads f (m # ms) = m # publicOverloads f ms"
            using public same by (simp add: publicOverloads_Cons)
          moreover have "map_of (result @ [(methodName m, [toMethodDeclaration m])]) f
                           = Some [toMethodDeclaration m]"
            using same none by (simp add: map_add_def)
          ultimately show ?thesis
            using IH public False notproto none by (simp add: assignOverloads_def)
        next
          case other: False
          have "publicOverloads f (m # ms) = publicOverloads f ms"
            using other by (simp add: publicOverloads_Cons)
          moreover have "map_of (result @ [(methodName m, [toMethodDeclaration m])]) f
                           = map_of result f"
            using other by (simp add: map_add_def split: option.splits)
          ultimately show ?thesis
            using IH public False notproto by (simp add: assignOverloads_def)
        qed
      qed
    qed
  qed
qed

lemma convertMethods_two_overloads:
  assumes "f \<noteq> ''__proto__''" and "publicOverloads f ms = [m1, m2]"
  shows "\<exists>pre post. convertMethods ms
                       = pre @ [(f, [toMethodDeclaration m1, toMethodDeclaration m2])] @ post
                     \<and> f \<notin> fst ` set pre \<and> f \<notin> fst ` set post"
proof -
  have grouped: "distinct (map fst (convertMethods ms))"
    "map_of (convertMethods ms) f = Some [toMethodDeclaration m1, toMethodDeclaration m2]"
    using convertMethodsFrom_grouped [OF assms(1), of "[]" ms] assms(2)
    by (simp_all add: convertMethods_def)
  from grouped(2)
  have "(f, [toMethodDeclaration m1, toMethodDeclaration m2]) \<in> set (convertMethods ms)"
    by (rule map_of_SomeD)
  then obtain pre post where
    split: "convertMethods ms = pre @ (f, [toMethodDeclaration m1, toMethodDeclaration m2]) # post"
    by (blast dest: split_list)
  with grouped(1) have "f \<notin> fst ` set pre \<and> f \<notin> fst ` set post"
    by simp
  with split show ?thesis
    by (intro exI [of _ pre] exI [of _ post]) simp
qed

lemma convertEntries_append:
  "fst (convertEntries cn ri (xs @ ys) g)
     = fst (convertEntries cn ri xs g)
       @ fst (convertEntries cn ri ys (snd (convertEntries cn ri xs g)))"
proof (induction xs arbitrary: g)
  case Nil
  then show ?case by simp
next
  case (Cons e xs)
  then show ?case
    by (cases e) (simp add: split_beta)
qed

lemma fst_createMethod:
  "fst (createMethod cn ri m mname i isSync nn g)
     = MethodDeclarationNode
         ([PublicKeyword] @ (if methodIsStatic m then [StaticKeyword] else []))
         (mname @ (if isSync then ''Sync'' else []))
         (fst (convertParameters cn ri m
                 (snd (javaTypeToTypescriptType cn ri (returnType m) False True g))))
         (if isSync then fst (javaTypeToTypescriptType cn ri (returnType m) False (\<not> nn) g)
          else TypeReferenceNode ''Promise''
                 [fst (javaTypeToTypescriptType cn ri (returnType m) False (\<not> nn) g)])
         ((if i = 0
           then [SingleLineComment
                   ('' ================== Method '' @ mname @ '' =================='')]
           else [])
          @ [MultiLineComment (createMethodComment m)])"
  using state_ignores_strict [of cn ri "returnType m" False "\<not> nn" g True]
  by (simp add: createMethod_def split_beta Let_def)

lemma convertMethod_two:
  "\<exists>a1 s1 a2 s2.
     fst (convertMethod cn ri [d1, d2] f g) = [a1, s1, a2, s2]
     \<and> map elementName [a1, s1, a2, s2] = [f, f @ ''Sync'', f, f @ ''Sync'']
     \<and> map declaredType [a1, s1, a2, s2]
         = [Some (TypeReferenceNode ''Promise''
                    [mappedType cn (returnType d1) False (f \<notin> set nonNullReturnMethods)]),
            Some (mappedType cn (returnType d1) False (f \<notin> set nonNullReturnMethods)),
            Some (TypeReferenceNode ''Promise''
                    [mappedType cn (returnType d2) False (f \<notin> set nonNullReturnMethods)]),
            Some (mappedType cn (returnType d2) False (f \<notin> set nonNullReturnMethods))]"
  unfolding convertMethod_def
  by (simp add: fst_createMethod split_beta Let_def fst_mapped)

text \<open>
  For every name but \<^verbatim>\<open>__proto__\<close>: two public overloads of \<open>f\<close> make one entry of the
  record, and the entry is converted to one block of four declarations in the class,
  \<open>f\<close> returning a \<^verbatim>\<open>Promise\<close> and \<open>fSync\<close> returning the bare type for each overload.
\<close>

lemma overload_fan_out:
  assumes "f \<noteq> ''__proto__''" and "publicOverloads f (getMethods cls) = [m1, m2]"
  shows "\<exists>pre post before after a1 s1 a2 s2.
           convertMethods (getMethods cls)
             = pre @ [(f, [toMethodDeclaration m1, toMethodDeclaration m2])] @ post
           \<and> f \<notin> fst ` set pre \<and> f \<notin> fst ` set post
           \<and> fst (classMembers cn ri cls g) = before @ [a1, s1, a2, s2] @ after
           \<and> map elementName [a1, s1, a2, s2] = [f, f @ ''Sync'', f, f @ ''Sync'']
           \<and> map declaredType [a1, s1, a2, s2]
               = [Some (TypeReferenceNode ''Promise''
                    [mappedType cn (methodReturnType m1) False (f \<notin> set nonNullReturnMethods)]),
                  Some (mappedType cn (methodReturnType m1) False (f \<notin> set nonNullReturnMethods)),
                  Some (TypeReferenceNode ''Promise''
                    [mappedType cn (methodReturnType m2) False (f \<notin> set nonNullReturnMethods)]),
                  Some (mappedType cn (methodReturnType m2) False (f \<notin> set nonNullReturnMethods))]"
proof -
  from convertMethods_two_overloads [OF assms] obtain pre post where
    entries: "convertMethods (getMethods cls)
                = pre @ [(f, [toMethodDeclaration m1, toMethodDeclaration m2])] @ post"
    and fresh: "f \<notin> fst ` set pre" "f \<notin> fst ` set post"
    by (elim exE conjE) (rule that)
  define g1 where "g1 = snd (convertFields cn ri (filterIndexed onlyUnique (getFields cls)) g)"
  define fs where "fs = fst (convertFields cn ri (filterIndexed onlyUnique (getFields cls)) g)"
  define g2 where "g2 = snd (convertEntries cn ri pre g1)"
  define g3 where "g3 = snd (convertMethod cn ri
                               [toMethodDeclaration m1, toMethodDeclaration m2] f g2)"
  have "returnType (toMethodDeclaration m1) = methodReturnType m1"
    "returnType (toMethodDeclaration m2) = methodReturnType m2"
    by (simp_all add: toMethodDeclaration_def)
  with convertMethod_two [of cn ri "toMethodDeclaration m1" "toMethodDeclaration m2" f g2]
  obtain a1 s1 a2 s2 where
    block: "fst (convertMethod cn ri [toMethodDeclaration m1, toMethodDeclaration m2] f g2)
              = [a1, s1, a2, s2]"
    and names: "map elementName [a1, s1, a2, s2] = [f, f @ ''Sync'', f, f @ ''Sync'']"
    and types: "map declaredType [a1, s1, a2, s2]
       = [Some (TypeReferenceNode ''Promise''
            [mappedType cn (methodReturnType m1) False (f \<notin> set nonNullReturnMethods)]),
          Some (mappedType cn (methodReturnType m1) False (f \<notin> set nonNullReturnMethods)),
          Some (TypeReferenceNode ''Promise''
            [mappedType cn (methodReturnType m2) False (f \<notin> set nonNullReturnMethods)]),
          Some (mappedType cn (methodReturnType m2) False (f \<notin> set nonNullReturnMethods))]"
    by (elim exE conjE) (rule that, simp_all)
  have methods: "fst (convertEntries cn ri (convertMethods (getMethods cls)) g1)
          = fst (convertEntries cn ri pre g1) @ [a1, s1, a2, s2]
            @ fst (convertEntries cn ri post g3)"
    unfolding entries
    by (simp add: convertEntries_append split_beta g2_def [symmetric] g3_def [symmetric] block)
  have "\<exists>cs. fst (classMembers cn ri cls g)
               = fs @ fst (convertEntries cn ri (convertMethods (getMethods cls)) g1) @ cs"
    by (simp add: classMembers_def split_beta Let_def fs_def g1_def)
  then obtain cs where members: "fst (classMembers cn ri cls g)
      = (fs @ fst (convertEntries cn ri pre g1)) @ [a1, s1, a2, s2]
        @ (fst (convertEntries cn ri post g3) @ cs)"
    using methods by (elim exE) simp
  show ?thesis
    apply (rule exI [of _ pre], rule exI [of _ post])
    apply (rule exI [of _ "fs @ fst (convertEntries cn ri pre g1)"])
    apply (rule exI [of _ "fst (convertEntries cn ri post g3) @ cs"])
    apply (rule exI [of _ a1], rule exI [of _ s1], rule exI [of _ a2], rule exI [of _ s2])
    apply (intro conjI)
         apply (rule entries)
        apply (rule fresh(1))
       apply (rule fresh(2))
      apply (rule members)
     apply (rule names)
    apply (rule types)
    done
qed

text \<open>
  Claim C5 at the name \<^verbatim>\<open>__proto__\<close>, which is a Java identifier. The first overload
  is stored with \<^verbatim>\<open>result['__proto__'] = [data]\<close>, which creates no own property, so
  \<^verbatim>\<open>Object.hasOwn\<close> stays false, the second overload is stored the same way, and
  \<^verbatim>\<open>Object.entries\<close> lists nothing: the class with these two public overloads gets no
  method declaration at all, not four.
\<close>

theorem proto_overloads_are_dropped:
  "publicOverloads ''__proto__''
     [\<lparr>methodModifiers = 1, methodName = ''__proto__'', methodReturnType = ''void'',
        methodParameterTypes = []\<rparr>,
      \<lparr>methodModifiers = 1, methodName = ''__proto__'', methodReturnType = ''void'',
        methodParameterTypes = [''int'']\<rparr>]
     = [\<lparr>methodModifiers = 1, methodName = ''__proto__'', methodReturnType = ''void'',
         methodParameterTypes = []\<rparr>,
        \<lparr>methodModifiers = 1, methodName = ''__proto__'', methodReturnType = ''void'',
         methodParameterTypes = [''int'']\<rparr>]
   \<and> convertMethods
     [\<lparr>methodModifiers = 1, methodName = ''__proto__'', methodReturnType = ''void'',
        methodParameterTypes = []\<rparr>,
      \<lparr>methodModifiers = 1, methodName = ''__proto__'', methodReturnType = ''void'',
        methodParameterTypes = [''int'']\<rparr>] = []
   \<and> fst (classMembers ''a.B'' []
       \<lparr>getFields = [],
        getMethods =
          [\<lparr>methodModifiers = 1, methodName = ''__proto__'', methodReturnType = ''void'',
             methodParameterTypes = []\<rparr>,
           \<lparr>methodModifiers = 1, methodName = ''__proto__'', methodReturnType = ''void'',
             methodParameterTypes = [''int'']\<rparr>],
        getDeclaredConstructors = [], getModifiers = 1, isInterface = False\<rparr>
       newGenerator) = []"
  by (simp add: publicOverloads_def convertMethods_def hasOwn_def assignOverloads_def
        isPublic_def classMembers_def filterIndexed_def isAbstractOrInterface_def isAbstract_def
        convertConstructors_def publicConstructorTypes_def)

end
